theory Spec2Isabelle
  imports Complex_Main "HOL-Library.AList" "HOL-Library.Char_ord" "HOL-Library.List_Lexorder"
begin

section \<open>Data model of \<^verbatim>\<open>app.py\<close>\<close>

text \<open>
  The application keeps its catalog in a pandas DataFrame read from a CSV file. A cell of
  such a table is a missing value (\<^verbatim>\<open>NaN\<close>), a number or a text; floating-point numbers are
  represented by reals. A frame is its row count together with its columns in order, each
  column a list of cells; \<^verbatim>\<open>df[c] = col\<close> replaces column \<open>c\<close> in place or
  appends it, which is what \<open>AList.update\<close> does.
\<close>

datatype cell = NaN | Num real | Str string

record frame =
  nrows :: nat
  cols :: "(string \<times> cell list) list"

text \<open>The invariant of a DataFrame: every column has one cell per row.\<close>

definition wf_frame :: "frame \<Rightarrow> bool" where
  "wf_frame df = list_all (\<lambda>kv. length (snd kv) = nrows df) (cols df)"

text \<open>
  Python exceptions. \<open>KeyError\<close> carries the missing key; \<open>OSError\<close> stands for whatever
  the file system or the CSV reader raises and carries the text \<^verbatim>\<open>str(e)\<close> gives.
\<close>

datatype py_exc =
  KeyError string | IndexError | TypeError | AttributeError | ValueError | OSError string

text \<open>
  \<^verbatim>\<open>str(e)\<close>: a \<open>KeyError\<close> prints the \<^verbatim>\<open>repr\<close> of its key. Only a \<open>KeyError\<close> and
  an \<open>OSError\<close> can reach the handler of \<^verbatim>\<open>load_data\<close>, the one place where the text is
  used (lemma \<open>load_data_try_raises\<close>); the other cases give a short text of their class.
\<close>

fun exc_str :: "py_exc \<Rightarrow> string" where
  "exc_str (KeyError k) = [CHR 0x27] @ k @ [CHR 0x27]"
| "exc_str (OSError m) = m"
| "exc_str IndexError = ''single positional indexer is out-of-bounds''"
| "exc_str TypeError = ''unorderable types''"
| "exc_str AttributeError = ''Can only use .str accessor with string values!''"
| "exc_str ValueError = ''Unknown format code''"

text \<open>\<^verbatim>\<open>df[c]\<close> raises \<open>KeyError\<close> for a column the frame does not have.\<close>

definition getitem :: "frame \<Rightarrow> string \<Rightarrow> py_exc + cell list" where
  "getitem df c = (case map_of (cols df) c of None \<Rightarrow> Inl (KeyError c) | Some col \<Rightarrow> Inr col)"

definition setitem :: "frame \<Rightarrow> string \<Rightarrow> cell list \<Rightarrow> frame" where
  "setitem df c col = df\<lparr>cols := AList.update c col (cols df)\<rparr>"

subsection \<open>\<^verbatim>\<open>load_data\<close> (app.py, lines 17 to 40)\<close>

text \<open>
  \<^verbatim>\<open>pd.to_numeric(..., errors='coerce')\<close> keeps a number, parses a text and turns what does
  not parse into \<^verbatim>\<open>NaN\<close>. The parser of numerals belongs to pandas and is a parameter.
\<close>

fun to_numeric :: "(string \<Rightarrow> real option) \<Rightarrow> cell \<Rightarrow> cell" where
  "to_numeric parse NaN = NaN"
| "to_numeric parse (Num x) = Num x"
| "to_numeric parse (Str s) = (case parse s of None \<Rightarrow> NaN | Some x \<Rightarrow> Num x)"

fun fillna :: "cell \<Rightarrow> cell \<Rightarrow> cell" where
  "fillna v NaN = v"
| "fillna v (Num x) = Num x"
| "fillna v (Str s) = Str s"

definition placeholder :: string where
  "placeholder = ''https://via.placeholder.com/150x200?text=No+Image''"

definition startswith :: "string \<Rightarrow> string \<Rightarrow> bool" where
  "startswith s p = (take (length p) s = p)"

text \<open>
  \<^verbatim>\<open>str(x).startswith('http')\<close>. A text is its own \<^verbatim>\<open>str\<close>, a missing value prints as
  \<^verbatim>\<open>nan\<close>, and a number prints with a leading digit, sign, \<^verbatim>\<open>i\<close> or \<^verbatim>\<open>n\<close>, never
  with \<^verbatim>\<open>h\<close>.
\<close>

fun str_startswith_http :: "cell \<Rightarrow> bool" where
  "str_startswith_http (Str s) = startswith s ''http''"
| "str_startswith_http NaN = startswith ''nan'' ''http''"
| "str_startswith_http (Num x) = False"

definition image_or_placeholder :: "cell \<Rightarrow> cell" where
  "image_or_placeholder x = (if str_startswith_http x then x else Str placeholder)"

text \<open>
  The body of the \<^verbatim>\<open>try\<close> block. Its argument is what \<^verbatim>\<open>pd.read_csv\<close> produced: an
  exception or a frame. Each \<^verbatim>\<open>df[c]\<close> on the right of an assignment may raise.
\<close>

definition load_data_try :: "(string \<Rightarrow> real option) \<Rightarrow> py_exc + frame \<Rightarrow> py_exc + frame" where
  "load_data_try parse csv =
    (case csv of Inl e \<Rightarrow> Inl e | Inr df \<Rightarrow>
     (case getitem df ''score'' of Inl e \<Rightarrow> Inl e | Inr score \<Rightarrow>
      (let df1 = setitem df ''score'' (map (\<lambda>c. fillna (Num 0) (to_numeric parse c)) score) in
       (case getitem df1 ''genres'' of Inl e \<Rightarrow> Inl e | Inr genres \<Rightarrow>
        (let df2 = setitem df1 ''genres'' (map (fillna (Str ''Unknown'')) genres);
             df3 = (if map_of (cols df2) ''image_url'' = None
                    then setitem df2 ''image_url'' (replicate (nrows df2) (Str placeholder))
                    else df2) in
         (case getitem df3 ''image_url'' of Inl e \<Rightarrow> Inl e | Inr image_url \<Rightarrow>
          (let df4 = setitem df3 ''image_url'' (map image_or_placeholder image_url) in
           (case getitem df4 ''synopsis_clean'' of Inl e \<Rightarrow> Inl e | Inr synopsis \<Rightarrow>
             Inr (setitem df4 ''synopsis_clean'' (map (fillna (Str '''')) synopsis))))))))))"

text \<open>
  \<^verbatim>\<open>load_data\<close> returns the frame, or reports the exception with \<^verbatim>\<open>st.error\<close> and halts the
  script with \<^verbatim>\<open>st.stop()\<close>.
\<close>

datatype loaded = Loaded frame | Load_failed string

definition load_data :: "(string \<Rightarrow> real option) \<Rightarrow> py_exc + frame \<Rightarrow> loaded" where
  "load_data parse csv =
    (case load_data_try parse csv of
       Inl e \<Rightarrow> Load_failed (''Gagal memuat dataset: '' @ exc_str e)
     | Inr df \<Rightarrow> Loaded df)"

section \<open>The page script\<close>

text \<open>
  One run of the Streamlit script renders widgets in order and ends in one of three ways:
  it runs to its end, it is halted (\<^verbatim>\<open>st.stop()\<close>, a rerun requested by a collaborator),
  or an exception escapes. A widget is recorded with the values passed to it, not with the
  text Streamlit formats from them. Failures inside Streamlit itself (fetching an image,
  two widgets with one key) are outside the model.
\<close>

datatype widget =
    Page_config | Style string | Login_page | Sidebar_user string | Logout_control
  | Page_title | Intro | Menu_radio
  | Sidebar_title | Selectbox "cell list" | Slider int | Recommend_button | Spinner
  | Error string | Warning string | Info string
  | Selected_heading "cell option" | Selected_image cell | Selected_genre cell
  | Selected_rating cell | Selected_synopsis cell | Recommendations_heading
  | Card_image cell | Card_title cell | Genre cell | Rating cell | Similarity cell
  | Synopsis cell | Bookmark_button cell | Add_bookmark cell
  | Bookmarks_heading | Multiselect "string list" | Delete_button
  | Remove_multiple_bookmarks "string list"

datatype outcome = Done | Stopped | Raised py_exc

type_synonym run = "widget list \<times> outcome"

text \<open>Sequencing: the second part runs only if the first ran to its end.\<close>

definition then_run :: "run \<Rightarrow> run \<Rightarrow> run" where
  "then_run a b = (case snd a of Done \<Rightarrow> (fst a @ fst b, snd b) | _ \<Rightarrow> a)"

text \<open>
  A row taken out of a frame is a pandas Series: the cells of one row by column name.
  \<^verbatim>\<open>row[c]\<close> raises \<open>KeyError\<close> for a name the row does not have.
\<close>

type_synonym series = "(string \<times> cell) list"

definition row_at :: "frame \<Rightarrow> nat \<Rightarrow> series" where
  "row_at df i = map (\<lambda>kv. (fst kv, snd kv ! i)) (cols df)"

definition series_get :: "series \<Rightarrow> string \<Rightarrow> py_exc + cell" where
  "series_get row c = (case map_of row c of None \<Rightarrow> Inl (KeyError c) | Some v \<Rightarrow> Inr v)"

fun first_index :: "bool list \<Rightarrow> nat option" where
  "first_index [] = None"
| "first_index (b # bs) = (if b then Some 0 else map_option Suc (first_index bs))"

text \<open>\<^verbatim>\<open>df[mask].iloc[0]\<close>: the first row the mask selects; \<open>IndexError\<close> if it selects none.\<close>

definition iloc0 :: "frame \<Rightarrow> bool list \<Rightarrow> py_exc + series" where
  "iloc0 df selection = (case first_index selection of None \<Rightarrow> Inl IndexError | Some i \<Rightarrow> Inr (row_at df i))"

text \<open>\<^verbatim>\<open>df.iterrows()\<close>: the rows in order.\<close>

definition iterrows :: "frame \<Rightarrow> series list" where
  "iterrows df = map (row_at df) [0..<nrows df]"

subsection \<open>Text helpers\<close>

text \<open>
  \<^verbatim>\<open>str.lower()\<close> belongs to Python and lowers every cased letter of Unicode; it is a
  parameter of the model (the field \<open>py_lower\<close> of the collaborators below, an argument
  \<open>lower\<close> of the functions that call it). On text made of ASCII characters it is
  \<open>ascii_lower\<close>, which lowers the letters A to Z and is used for the examples.
\<close>

definition upper_letters :: string where
  "upper_letters = ''ABCDEFGHIJKLMNOPQRSTUVWXYZ''"

definition lower_letters :: string where
  "lower_letters = ''abcdefghijklmnopqrstuvwxyz''"

definition is_upper :: "char \<Rightarrow> bool" where
  "is_upper c = (c \<in> set upper_letters)"

definition lower_char :: "char \<Rightarrow> char" where
  "lower_char c = (case map_of (zip upper_letters lower_letters) c of None \<Rightarrow> c | Some l \<Rightarrow> l)"

definition ascii_lower :: "string \<Rightarrow> string" where
  "ascii_lower s = map lower_char s"

text \<open>
  \<^verbatim>\<open>col.str.lower()\<close>: the accessor exists for a text column only (an empty column, or
  one holding a text); it lowers texts and yields \<^verbatim>\<open>NaN\<close> for every other cell.
\<close>

fun is_Str :: "cell \<Rightarrow> bool" where
  "is_Str (Str s) = True"
| "is_Str NaN = False"
| "is_Str (Num x) = False"

fun lower_cell :: "(string \<Rightarrow> string) \<Rightarrow> cell \<Rightarrow> cell" where
  "lower_cell lower (Str s) = Str (lower s)"
| "lower_cell lower NaN = NaN"
| "lower_cell lower (Num x) = NaN"

definition str_lower :: "(string \<Rightarrow> string) \<Rightarrow> cell list \<Rightarrow> py_exc + cell list" where
  "str_lower lower col =
    (if col \<noteq> [] \<and> \<not> list_ex is_Str col then Inl AttributeError
     else Inr (map (lower_cell lower) col))"

text \<open>\<^verbatim>\<open>selected_anime.lower()\<close>: only a text has the method.\<close>

fun lower_selected :: "(string \<Rightarrow> string) \<Rightarrow> cell option \<Rightarrow> py_exc + string" where
  "lower_selected lower (Some (Str s)) = Inr (lower s)"
| "lower_selected lower (Some NaN) = Inl AttributeError"
| "lower_selected lower (Some (Num x)) = Inl AttributeError"
| "lower_selected lower None = Inl AttributeError"

fun the_strs :: "cell list \<Rightarrow> string list" where
  "the_strs [] = []"
| "the_strs (Str s # cs) = s # the_strs cs"
| "the_strs (NaN # cs) = the_strs cs"
| "the_strs (Num x # cs) = the_strs cs"

text \<open>
  \<^verbatim>\<open>sorted(col.unique())\<close>: texts sort by code point; comparing a text with a number or a
  missing value raises \<open>TypeError\<close>. The order among numbers and missing values is not
  modelled (they are kept in column order).
\<close>

definition sorted_unique :: "cell list \<Rightarrow> py_exc + cell list" where
  "sorted_unique col =
    (if list_all is_Str col then Inr (map Str (sort (remdups (the_strs col))))
     else if list_ex is_Str col then Inl TypeError
     else Inr (rev (remdups (rev col))))"

subsection \<open>Streamlit widgets that return a value\<close>

text \<open>
  \<^verbatim>\<open>st.slider(min_value, max_value, value)\<close> returns the position the user chose, which
  the widget keeps between its bounds; without a valid position it returns the default.
  \<^verbatim>\<open>st.selectbox(label, options)\<close> returns the chosen option, the first one by default,
  and \<^verbatim>\<open>None\<close> when there are no options.
\<close>

definition st_slider :: "int \<Rightarrow> int \<Rightarrow> int \<Rightarrow> int \<Rightarrow> int" where
  "st_slider min_value max_value default_value position =
    (if min_value \<le> position \<and> position \<le> max_value then position else default_value)"

definition st_selectbox :: "cell list \<Rightarrow> nat \<Rightarrow> cell option" where
  "st_selectbox options choice =
    (if choice < length options then Some (options ! choice)
     else (case options of [] \<Rightarrow> None | x # xs \<Rightarrow> Some x))"

subsection \<open>Collaborators and inputs\<close>

text \<open>
  The modules \<^verbatim>\<open>Model.rekomendasi\<close>, \<^verbatim>\<open>Modules.login\<close> and \<^verbatim>\<open>Modules.bookmark\<close> are
  imported by the script and are parameters here, as are the numeral parser of pandas and
  \<^verbatim>\<open>str.lower\<close>. Of
  a collaborator that renders, the script sees only how the call ends; the call itself is
  recorded as a widget. \<^verbatim>\<open>recommend_anime\<close> returns a text or a frame, or raises.
\<close>

record externals =
  parse_float :: "string \<Rightarrow> real option"
  py_lower :: "string \<Rightarrow> string"
  login :: outcome
  logout :: outcome
  add_bookmark :: "cell \<Rightarrow> outcome"
  get_bookmarks :: "string list"
  remove_multiple_bookmarks :: "string list \<Rightarrow> outcome"
  build_model :: "frame \<Rightarrow> py_exc + real list list"
  recommend_anime :: "cell option \<Rightarrow> real list list \<Rightarrow> frame \<Rightarrow> int \<Rightarrow> py_exc + (string + frame)"

datatype menu = Rekomendasi | Bookmark

text \<open>What one run reads from the files, the session and the user.\<close>

record request =
  css_file :: "py_exc + string"
  logged_in :: bool
  username :: "string option"
  csv_file :: "py_exc + frame"
  menu_choice :: menu
  anime_choice :: nat
  slider_position :: int
  recommend_clicked :: bool
  show_recommendations :: bool
  selected_to_delete :: "string list"
  delete_clicked :: bool
  bookmark_clicked :: "cell \<Rightarrow> bool"

subsection \<open>\<^verbatim>\<open>display_anime_card\<close> (app.py, lines 52 to 76)\<close>

text \<open>
  The format \<^verbatim>\<open>:.2f\<close> accepts a number or a missing value and raises \<open>ValueError\<close> for a
  text. The bookmark button is offered to a logged-in user; a click on it calls
  \<^verbatim>\<open>add_bookmark\<close>.
\<close>

definition display_anime_card ::
  "externals \<Rightarrow> request \<Rightarrow> cell \<Rightarrow> cell \<Rightarrow> cell \<Rightarrow> cell \<Rightarrow> cell \<Rightarrow> cell \<Rightarrow> run" where
  "display_anime_card ext rq title genres score similarity synopsis image_url =
    (let header = [Card_image image_url, Card_title title, Genre genres] in
     if is_Str score then (header, Raised ValueError)
     else if is_Str similarity then (header @ [Rating score], Raised ValueError)
     else
       (let body = header @ [Rating score, Similarity similarity,
                          Synopsis (if synopsis \<noteq> NaN then synopsis
                                    else Str ''Sinopsis tidak tersedia'')] in
        if logged_in rq then
          (if bookmark_clicked rq title
           then (body @ [Bookmark_button title, Add_bookmark title], add_bookmark ext title)
           else (body @ [Bookmark_button title], Done))
        else (body, Done)))"

subsection \<open>The recommendation view (app.py, lines 118 to 171)\<close>

text \<open>
  Lines 148 and 149: the row of the selected title, found by comparing lowered titles.
\<close>

definition selected_info ::
  "(string \<Rightarrow> string) \<Rightarrow> frame \<Rightarrow> cell option \<Rightarrow> py_exc + series" where
  "selected_info lower df selected =
    (case getitem df ''title'' of Inl e \<Rightarrow> Inl e | Inr titles \<Rightarrow>
     (case str_lower lower titles of Inl e \<Rightarrow> Inl e | Inr lowered \<Rightarrow>
      (case lower_selected lower selected of Inl e \<Rightarrow> Inl e | Inr q \<Rightarrow>
        iloc0 df (map (\<lambda>c. c = Str q) lowered))))"

text \<open>The arguments of one card, read from a row of the recommendations, left to right.\<close>

definition recommendation_card :: "externals \<Rightarrow> request \<Rightarrow> series \<Rightarrow> run" where
  "recommendation_card ext rq row =
    (case series_get row ''title'' of Inl e \<Rightarrow> ([], Raised e) | Inr title \<Rightarrow>
     (case series_get row ''genres'' of Inl e \<Rightarrow> ([], Raised e) | Inr genres \<Rightarrow>
      (case series_get row ''score'' of Inl e \<Rightarrow> ([], Raised e) | Inr score \<Rightarrow>
       (case series_get row ''similarity'' of Inl e \<Rightarrow> ([], Raised e) | Inr similarity \<Rightarrow>
        (case series_get row ''synopsis'' of Inl e \<Rightarrow> ([], Raised e) | Inr synopsis \<Rightarrow>
         (case series_get row ''image_url'' of Inl e \<Rightarrow> ([], Raised e) | Inr image_url \<Rightarrow>
           display_anime_card ext rq title genres score similarity synopsis image_url))))))"

fun recommendation_cards :: "externals \<Rightarrow> request \<Rightarrow> series list \<Rightarrow> run" where
  "recommendation_cards ext rq [] = ([], Done)"
| "recommendation_cards ext rq (row # rows) =
    then_run (recommendation_card ext rq row) (recommendation_cards ext rq rows)"

text \<open>Lines 150 to 163: the panel of the selected title.\<close>

definition selected_panel :: "cell option \<Rightarrow> series \<Rightarrow> run" where
  "selected_panel selected info =
    (case series_get info ''image_url'' of
       Inl e \<Rightarrow> ([Selected_heading selected], Raised e)
     | Inr image_url \<Rightarrow>
      (case series_get info ''genres'' of
         Inl e \<Rightarrow> ([Selected_heading selected, Selected_image image_url], Raised e)
       | Inr genres \<Rightarrow>
        (case series_get info ''score'' of
           Inl e \<Rightarrow> ([Selected_heading selected, Selected_image image_url,
                      Selected_genre genres], Raised e)
         | Inr score \<Rightarrow>
          (case series_get info ''synopsis'' of
             Inl e \<Rightarrow> ([Selected_heading selected, Selected_image image_url,
                        Selected_genre genres, Selected_rating score], Raised e)
           | Inr synopsis \<Rightarrow>
              ([Selected_heading selected, Selected_image image_url, Selected_genre genres,
                Selected_rating score,
                Selected_synopsis (if synopsis \<noteq> NaN then synopsis
                                   else Str ''Sinopsis tidak tersedia'')], Done)))))"

text \<open>
  Lines 139 to 171: the call of \<^verbatim>\<open>recommend_anime\<close> and what is shown for its result. A
  text is shown as a warning; a frame is shown as the selected title and one card per row.
\<close>

definition show_recommendations_block ::
  "externals \<Rightarrow> request \<Rightarrow> frame \<Rightarrow> real list list \<Rightarrow> cell option \<Rightarrow> int \<Rightarrow> run" where
  "show_recommendations_block ext rq df cosine_sim selected top_n =
    (case recommend_anime ext selected cosine_sim df top_n of
       Inl e \<Rightarrow> ([Spinner], Raised e)
     | Inr (Inl message) \<Rightarrow> ([Spinner, Warning message], Done)
     | Inr (Inr recommendations) \<Rightarrow>
        (case selected_info (py_lower ext) df selected of
           Inl e \<Rightarrow> ([Spinner], Raised e)
         | Inr info \<Rightarrow>
            then_run ([Spinner], Done)
              (then_run (selected_panel selected info)
                (then_run ([Recommendations_heading], Done)
                  (recommendation_cards ext rq (iterrows recommendations))))))"

text \<open>Lines 118 to 137 and the test of line 139.\<close>

definition rekomendasi_view :: "externals \<Rightarrow> request \<Rightarrow> frame \<Rightarrow> real list list \<Rightarrow> run" where
  "rekomendasi_view ext rq df cosine_sim =
    (case getitem df ''title'' of Inl e \<Rightarrow> ([Sidebar_title], Raised e) | Inr titles \<Rightarrow>
     (case sorted_unique titles of Inl e \<Rightarrow> ([Sidebar_title], Raised e) | Inr options \<Rightarrow>
      (let selected_anime = st_selectbox options (anime_choice rq);
           top_n = st_slider 1 10 5 (slider_position rq);
           sidebar = [Sidebar_title, Selectbox options, Slider top_n, Recommend_button]
       in if recommend_clicked rq \<or> show_recommendations rq
          then then_run (sidebar, Done)
                 (show_recommendations_block ext rq df cosine_sim selected_anime top_n)
          else (sidebar, Done))))"

subsection \<open>The bookmark view (app.py, lines 173 to 197)\<close>

text \<open>Line 190: the first row whose title equals the bookmarked title.\<close>

definition bookmark_row :: "frame \<Rightarrow> string \<Rightarrow> py_exc + series" where
  "bookmark_row df title =
    (case getitem df ''title'' of Inl e \<Rightarrow> Inl e | Inr titles \<Rightarrow>
      iloc0 df (map (\<lambda>c. c = Str title) titles))"

text \<open>Lines 191 to 195: the card of one bookmark; its similarity is the literal 1.0.\<close>

definition bookmark_card :: "externals \<Rightarrow> request \<Rightarrow> frame \<Rightarrow> string \<Rightarrow> run" where
  "bookmark_card ext rq df title =
    (case bookmark_row df title of Inl e \<Rightarrow> ([], Raised e) | Inr anime \<Rightarrow>
     (case series_get anime ''title'' of Inl e \<Rightarrow> ([], Raised e) | Inr t \<Rightarrow>
      (case series_get anime ''genres'' of Inl e \<Rightarrow> ([], Raised e) | Inr genres \<Rightarrow>
       (case series_get anime ''score'' of Inl e \<Rightarrow> ([], Raised e) | Inr score \<Rightarrow>
        (case series_get anime ''synopsis'' of Inl e \<Rightarrow> ([], Raised e) | Inr synopsis \<Rightarrow>
         (case series_get anime ''image_url'' of Inl e \<Rightarrow> ([], Raised e) | Inr image_url \<Rightarrow>
           display_anime_card ext rq t genres score (Num 1) synopsis image_url))))))"

fun bookmark_cards :: "externals \<Rightarrow> request \<Rightarrow> frame \<Rightarrow> string list \<Rightarrow> run" where
  "bookmark_cards ext rq df [] = ([], Done)"
| "bookmark_cards ext rq df (title # titles) =
    then_run (bookmark_card ext rq df title) (bookmark_cards ext rq df titles)"

definition bookmark_view :: "externals \<Rightarrow> request \<Rightarrow> frame \<Rightarrow> run" where
  "bookmark_view ext rq df =
    (let bookmarks = get_bookmarks ext in
     if bookmarks \<noteq> [] then
       then_run ([Bookmarks_heading, Multiselect bookmarks, Delete_button], Done)
         (then_run
           (if delete_clicked rq then
              (if selected_to_delete rq \<noteq> []
               then ([Remove_multiple_bookmarks (selected_to_delete rq)],
                     remove_multiple_bookmarks ext (selected_to_delete rq))
               else ([Info ''Tidak ada bookmark yang dipilih untuk dihapus.''], Done))
            else ([], Done))
           (bookmark_cards ext rq df bookmarks))
     else ([Bookmarks_heading, Info ''Bookmark Anda masih kosong.''], Done))"

subsection \<open>\<^verbatim>\<open>main\<close> (app.py, lines 81 to 197)\<close>

definition main :: "externals \<Rightarrow> request \<Rightarrow> run" where
  "main ext rq =
    (case css_file rq of Inl e \<Rightarrow> ([Page_config], Raised e) | Inr css \<Rightarrow>
      then_run ([Page_config, Style css], Done)
       (if \<not> logged_in rq then ([Login_page], login ext)
        else
         (case username rq of None \<Rightarrow> ([], Raised (KeyError ''username'')) | Some name \<Rightarrow>
           then_run ([Sidebar_user name], Done)
            (then_run ([Logout_control], logout ext)
              (then_run ([Page_title, Intro], Done)
                (case load_data (parse_float ext) (csv_file rq) of
                   Load_failed message \<Rightarrow> ([Error message], Stopped)
                 | Loaded df \<Rightarrow>
                    (case build_model ext df of Inl e \<Rightarrow> ([], Raised e) | Inr cosine_sim \<Rightarrow>
                      then_run ([Menu_radio], Done)
                        (case menu_choice rq of
                           Rekomendasi \<Rightarrow> rekomendasi_view ext rq df cosine_sim
                         | Bookmark \<Rightarrow> bookmark_view ext rq df))))))))"

text \<open>The similarity values shown by a run, in order.\<close>

fun similarities :: "widget list \<Rightarrow> cell list" where
  "similarities [] = []"
| "similarities (Similarity c # ws) = c # similarities ws"
| "similarities (w # ws) = similarities ws"

section \<open>The recommender and the similarity matrix, from the specification\<close>

text \<open>
  Modelled from the spec: the title lookup of \<^verbatim>\<open>recommend_anime\<close> (the module
  \<^verbatim>\<open>Model/rekomendasi.py\<close> is not among the sources). Section 4.3, step 1: the query is
  resolved to an item index by a case-insensitive exact match on the title.
\<close>

definition titles_of :: "frame \<Rightarrow> cell list" where
  "titles_of df = (case map_of (cols df) ''title'' of None \<Rightarrow> [] | Some col \<Rightarrow> col)"

fun title_matches :: "(string \<Rightarrow> string) \<Rightarrow> string \<Rightarrow> cell \<Rightarrow> bool" where
  "title_matches lower q (Str t) = (lower t = lower q)"
| "title_matches lower q NaN = False"
| "title_matches lower q (Num x) = False"

definition resolve_title :: "(string \<Rightarrow> string) \<Rightarrow> frame \<Rightarrow> string \<Rightarrow> nat option" where
  "resolve_title lower df q = first_index (map (title_matches lower q) (titles_of df))"

text \<open>
  Modelled from the spec: the ranking of \<^verbatim>\<open>recommend_anime\<close>. Section 4.3, steps 2 and 3:
  the query item's row of the matrix is read, and all other items are ranked by descending
  similarity, items of equal similarity in catalog order (\<open>sort_key\<close> is stable).
\<close>

definition ranked_others :: "nat \<Rightarrow> real list \<Rightarrow> nat \<Rightarrow> (nat \<times> real) list" where
  "ranked_others idx scores n =
    sort_key (\<lambda>p. - snd p) (map (\<lambda>j. (j, scores ! j)) (filter (\<lambda>j. j \<noteq> idx) [0..<n]))"

definition select_rows :: "frame \<Rightarrow> nat list \<Rightarrow> frame" where
  "select_rows df idxs =
    \<lparr>nrows = length idxs, cols = map (\<lambda>kv. (fst kv, map (\<lambda>j. snd kv ! j) idxs)) (cols df)\<rparr>"

text \<open>
  Modelled from the spec: \<^verbatim>\<open>recommend_anime\<close>, the contract \<^verbatim>\<open>recommend\<close> of section 4.3.
  No match is the "not found" signal, a text (its wording is a parameter); otherwise the
  ranking is truncated to \<open>top_n\<close> entries (step 4) and each entry pairs the item's
  columns with its similarity.
\<close>

definition recommend ::
  "(string \<Rightarrow> string) \<Rightarrow> (string \<Rightarrow> string) \<Rightarrow> string \<Rightarrow> real list list \<Rightarrow> frame \<Rightarrow> int
     \<Rightarrow> string + frame" where
  "recommend not_found lower q matrix df top_n =
    (case resolve_title lower df q of
       None \<Rightarrow> Inl (not_found q)
     | Some idx \<Rightarrow>
        (let best = take (nat top_n) (ranked_others idx (matrix ! idx) (nrows df))
         in Inr (setitem (select_rows df (map fst best)) ''similarity''
                   (map (\<lambda>p. Num (snd p)) best))))"

text \<open>
  Modelled from the spec: the matrix builder of \<^verbatim>\<open>build_model\<close> (section 4.2), over exact
  reals: \<^verbatim>\<open>sim(a,b) = dot(a,b) / (norm(a) * norm(b))\<close>, and 0 when either norm is 0.
\<close>

definition dot :: "real list \<Rightarrow> real list \<Rightarrow> real" where
  "dot a b = sum_list (map (\<lambda>p. fst p * snd p) (zip a b))"

definition vec_norm :: "real list \<Rightarrow> real" where
  "vec_norm a = sqrt (dot a a)"

definition cosine :: "real list \<Rightarrow> real list \<Rightarrow> real" where
  "cosine a b =
    (if vec_norm a = 0 \<or> vec_norm b = 0 then 0 else dot a b / (vec_norm a * vec_norm b))"

definition build_similarity_matrix :: "real list list \<Rightarrow> real list list" where
  "build_similarity_matrix vectors = map (\<lambda>a. map (cosine a) vectors) vectors"

text \<open>
  Modelled from the spec: the shape of the similarity matrix (section 3), one row and one
  column per item.
\<close>

definition square_matrix :: "nat \<Rightarrow> real list list \<Rightarrow> bool" where
  "square_matrix n m = (length m = n \<and> list_all (\<lambda>r. length r = n) m)"

text \<open>
  Two texts of ASCII characters that differ only in letter case: of equal length, and at
  each position the same character or the two cases of one of the letters A to Z.
\<close>

definition same_letter :: "char \<Rightarrow> char \<Rightarrow> bool" where
  "same_letter x y = (x = y \<or> (is_upper x \<and> y = lower_char x) \<or> (is_upper y \<and> x = lower_char y))"

definition differ_only_in_ascii_case :: "string \<Rightarrow> string \<Rightarrow> bool" where
  "differ_only_in_ascii_case a b = list_all2 same_letter a b"

section \<open>A reading of "valid absolute URI reference"\<close>

text \<open>
  RFC 3986: an absolute URI is a scheme, a colon and a non-empty rest; the scheme starts
  with a letter and continues with letters, digits, plus, minus or dot.
\<close>

definition is_alpha :: "char \<Rightarrow> bool" where
  "is_alpha c = ((CHR ''a'' \<le> c \<and> c \<le> CHR ''z'') \<or> (CHR ''A'' \<le> c \<and> c \<le> CHR ''Z''))"

definition is_digit :: "char \<Rightarrow> bool" where
  "is_digit c = (CHR ''0'' \<le> c \<and> c \<le> CHR ''9'')"

definition valid_absolute_uri :: "string \<Rightarrow> bool" where
  "valid_absolute_uri s =
    (let scheme = takeWhile (\<lambda>c. c \<noteq> CHR '':'') s;
         rest = dropWhile (\<lambda>c. c \<noteq> CHR '':'') s
     in scheme \<noteq> [] \<and> is_alpha (hd scheme)
        \<and> list_all (\<lambda>c. is_alpha c \<or> is_digit c \<or> c \<in> set ''+-.'') scheme
        \<and> 1 < length rest)"

section \<open>A small catalog\<close>

text \<open>
  A catalog of three rows as the CSV reader delivers it, with a missing genre, an
  unparseable and a missing score, a missing synopsis and three kinds of image reference;
  a parser that knows one numeral; collaborators that return at once; and a logged-in
  request for the bookmark view.
\<close>

definition demo_csv :: frame where
  "demo_csv =
    \<lparr>nrows = 3,
     cols = [(''title'', [Str ''Naruto'', Str ''Bleach'', Str ''One Piece'']),
             (''genres'', [Str ''Action'', NaN, Str ''Adventure'']),
             (''score'', [Str ''8'', Str ''unknown'', NaN]),
             (''synopsis'', [Str ''ninja'', NaN, Str ''pirates'']),
             (''synopsis_clean'', [Str ''ninja'', NaN, Str ''pirates'']),
             (''image_url'', [Str ''https://cdn.example/naruto.jpg'', Str ''httpfoo'',
                              Str ''ftp://example.org/a.png''])]\<rparr>"

definition demo_parse :: "string \<Rightarrow> real option" where
  "demo_parse s = (if s = ''8'' then Some 8 else None)"

definition demo_externals :: externals where
  "demo_externals =
    \<lparr>parse_float = demo_parse, py_lower = ascii_lower, login = Done, logout = Done, add_bookmark = (\<lambda>t. Done),
     get_bookmarks = [''Naruto''], remove_multiple_bookmarks = (\<lambda>ts. Done),
     build_model = (\<lambda>df. Inr []), recommend_anime = (\<lambda>q m df n. Inl TypeError)\<rparr>"

definition demo_request :: request where
  "demo_request =
    \<lparr>css_file = Inr ''body {}'', logged_in = True, username = Some ''wahyu'',
     csv_file = Inr demo_csv, menu_choice = Bookmark, anime_choice = 0, slider_position = 5,
     recommend_clicked = False, show_recommendations = False, selected_to_delete = [],
     delete_clicked = False, bookmark_clicked = (\<lambda>t. False)\<rparr>"

text \<open>The catalog as \<^verbatim>\<open>load_data\<close> returns it.\<close>

definition demo_catalog :: frame where
  "demo_catalog =
    \<lparr>nrows = 3,
     cols = [(''title'', [Str ''Naruto'', Str ''Bleach'', Str ''One Piece'']),
             (''genres'', [Str ''Action'', Str ''Unknown'', Str ''Adventure'']),
             (''score'', [Num 8, Num 0, Num 0]),
             (''synopsis'', [Str ''ninja'', NaN, Str ''pirates'']),
             (''synopsis_clean'', [Str ''ninja'', Str [], Str ''pirates'']),
             (''image_url'', [Str ''https://cdn.example/naruto.jpg'', Str ''httpfoo'',
                              Str placeholder])]\<rparr>"

text \<open>A catalog in which two rows carry one title in two spellings of its case.\<close>

definition twin_catalog :: frame where
  "twin_catalog =
    \<lparr>nrows = 2,
     cols = [(''title'', [Str ''naruto'', Str ''Naruto'']),
             (''genres'', [Str ''Parody'', Str ''Action'']),
             (''score'', [Num 5, Num 8]),
             (''synopsis'', [Str ''a spoof'', Str ''ninja'']),
             (''synopsis_clean'', [Str ''spoof'', Str ''ninja'']),
             (''image_url'', [Str placeholder, Str ''https://cdn.example/naruto.jpg''])]\<rparr>"

text \<open>
  A similarity matrix for the three rows, a wording of the "not found" text, and
  collaborators whose \<^verbatim>\<open>recommend_anime\<close> is the recommender of the specification.
\<close>

definition demo_matrix :: "real list list" where
  "demo_matrix = [[1, 1/5, 9/10], [1/5, 1, 1/10], [9/10, 1/10, 1]]"

definition demo_not_found :: "string \<Rightarrow> string" where
  "demo_not_found q = ''Anime tidak ditemukan: '' @ q"

definition spec_externals :: externals where
  "spec_externals = demo_externals
     \<lparr>build_model := (\<lambda>df. Inr demo_matrix),
      recommend_anime := (\<lambda>q m df n. case q of
          Some (Str s) \<Rightarrow> Inr (recommend demo_not_found ascii_lower s m df n)
        | _ \<Rightarrow> Inl AttributeError)\<rparr>"

text \<open>A request for the recommendation view, the slider pushed out of its range.\<close>

definition demo_recommend_request :: request where
  "demo_recommend_request =
     demo_request\<lparr>menu_choice := Rekomendasi, anime_choice := 1, slider_position := 42,
                   show_recommendations := True\<rparr>"

section \<open>Properties of the loader\<close>

lemma getitem_setitem:
  "getitem (setitem df c col) c' = (if c' = c then Inr col else getitem df c')"
  by (simp add: getitem_def setitem_def update_conv')

lemma map_of_setitem:
  "map_of (cols (setitem df c col)) c' = (if c' = c then Some col else map_of (cols df) c')"
  by (simp add: setitem_def update_conv')

lemma nrows_setitem: "nrows (setitem df c col) = nrows df"
  by (simp add: setitem_def)

lemma getitem_Some: "map_of (cols df) c = Some col \<Longrightarrow> getitem df c = Inr col"
  by (simp add: getitem_def)

lemma getitem_None: "map_of (cols df) c = None \<Longrightarrow> getitem df c = Inl (KeyError c)"
  by (simp add: getitem_def)

lemma setitem_twice: "setitem (setitem df c a) c b = setitem df c b"
  by (simp add: setitem_def)

lemma fillna_eq: "fillna v c = (if c = NaN then v else c)"
  by (cases c) simp_all

lemma fillna_to_numeric:
  "fillna (Num 0) (to_numeric parse c) =
    (case c of NaN \<Rightarrow> Num 0 | Num x \<Rightarrow> Num x
     | Str s \<Rightarrow> (case parse s of None \<Rightarrow> Num 0 | Some x \<Rightarrow> Num x))"
  by (cases c) (simp_all split: option.splits)

text \<open>With the three columns it reads present, the \<^verbatim>\<open>try\<close> block returns this frame.\<close>

lemma load_data_try_columns:
  assumes "map_of (cols df) ''score'' = Some score"
    and "map_of (cols df) ''genres'' = Some genres"
    and "map_of (cols df) ''synopsis_clean'' = Some synopsis"
  shows "load_data_try parse (Inr df) =
    Inr (setitem (setitem (setitem (setitem df
       ''score'' (map (\<lambda>c. fillna (Num 0) (to_numeric parse c)) score))
       ''genres'' (map (fillna (Str ''Unknown'')) genres))
       ''image_url'' (case map_of (cols df) ''image_url'' of
                        None \<Rightarrow> map image_or_placeholder (replicate (nrows df) (Str placeholder))
                      | Some col \<Rightarrow> map image_or_placeholder col))
       ''synopsis_clean'' (map (fillna (Str [])) synopsis))"
proof (cases "map_of (cols df) ''image_url''")
  case None
  with assms show ?thesis
    by (simp add: load_data_try_def getitem_setitem map_of_setitem getitem_Some getitem_None
        nrows_setitem Let_def setitem_twice)
next
  case (Some col)
  with assms show ?thesis
    by (simp add: load_data_try_def getitem_setitem map_of_setitem getitem_Some
        nrows_setitem Let_def)
qed

text \<open>
  C3. When the catalog is read and has the columns \<^verbatim>\<open>score\<close>, \<^verbatim>\<open>genres\<close> and
  \<^verbatim>\<open>synopsis_clean\<close>, \<^verbatim>\<open>load_data\<close> returns a frame and reports no error: a missing score
  and a score that does not parse become 0, a missing genre becomes \<^verbatim>\<open>Unknown\<close>, a missing
  description becomes the empty text, every other cell of these columns is kept, and none
  of the three columns of the returned frame holds a missing value.
\<close>

theorem load_data_defaults:
  assumes "map_of (cols df) ''score'' = Some score"
    and "map_of (cols df) ''genres'' = Some genres"
    and "map_of (cols df) ''synopsis_clean'' = Some synopsis"
  shows "\<exists>out. load_data parse (Inr df) = Loaded out
    \<and> getitem out ''score'' =
        Inr (map (\<lambda>c. case c of NaN \<Rightarrow> Num 0 | Num x \<Rightarrow> Num x
                      | Str s \<Rightarrow> (case parse s of None \<Rightarrow> Num 0 | Some x \<Rightarrow> Num x)) score)
    \<and> getitem out ''genres'' = Inr (map (\<lambda>c. if c = NaN then Str ''Unknown'' else c) genres)
    \<and> getitem out ''synopsis_clean'' = Inr (map (\<lambda>c. if c = NaN then Str [] else c) synopsis)
    \<and> (\<forall>c col. c \<in> {''score'', ''genres'', ''synopsis_clean''} \<longrightarrow> getitem out c = Inr col
          \<longrightarrow> NaN \<notin> set col)"
proof -
  let ?out = "setitem (setitem (setitem (setitem df
       ''score'' (map (\<lambda>c. fillna (Num 0) (to_numeric parse c)) score))
       ''genres'' (map (fillna (Str ''Unknown'')) genres))
       ''image_url'' (case map_of (cols df) ''image_url'' of
                        None \<Rightarrow> map image_or_placeholder (replicate (nrows df) (Str placeholder))
                      | Some col \<Rightarrow> map image_or_placeholder col))
       ''synopsis_clean'' (map (fillna (Str [])) synopsis)"
  have loaded: "load_data parse (Inr df) = Loaded ?out"
    by (simp add: load_data_def load_data_try_columns[OF assms])
  have sc: "getitem ?out ''score'' =
        Inr (map (\<lambda>c. case c of NaN \<Rightarrow> Num 0 | Num x \<Rightarrow> Num x
                      | Str s \<Rightarrow> (case parse s of None \<Rightarrow> Num 0 | Some x \<Rightarrow> Num x)) score)"
    by (simp add: getitem_setitem fillna_to_numeric)
  have ge: "getitem ?out ''genres'' = Inr (map (\<lambda>c. if c = NaN then Str ''Unknown'' else c) genres)"
    by (simp add: getitem_setitem fillna_eq)
  have sy: "getitem ?out ''synopsis_clean'' = Inr (map (\<lambda>c. if c = NaN then Str [] else c) synopsis)"
    by (simp add: getitem_setitem fillna_eq)
  have no: "NaN \<notin> set col"
    if "c \<in> {''score'', ''genres'', ''synopsis_clean''}" and "getitem ?out c = Inr col" for c col
    using that unfolding insert_iff empty_iff
    by (elim disjE) (auto simp: sc ge sy split: cell.splits option.splits)
  from loaded sc ge sy no show ?thesis
    by blast
qed

theorem load_data_defaults_witness:
  "map_of (cols demo_csv) ''score'' = Some [Str ''8'', Str ''unknown'', NaN]
   \<and> map_of (cols demo_csv) ''genres'' = Some [Str ''Action'', NaN, Str ''Adventure'']
   \<and> map_of (cols demo_csv) ''synopsis_clean'' = Some [Str ''ninja'', NaN, Str ''pirates'']
   \<and> (\<exists>out. load_data demo_parse (Inr demo_csv) = Loaded out
        \<and> getitem out ''score'' = Inr [Num 8, Num 0, Num 0]
        \<and> getitem out ''genres'' = Inr [Str ''Action'', Str ''Unknown'', Str ''Adventure'']
        \<and> getitem out ''synopsis_clean'' = Inr [Str ''ninja'', Str [], Str ''pirates''])"
  using load_data_defaults [of demo_csv "[Str ''8'', Str ''unknown'', NaN]"
      "[Str ''Action'', NaN, Str ''Adventure'']" "[Str ''ninja'', NaN, Str ''pirates'']" demo_parse]
  by (auto simp: demo_csv_def demo_parse_def)

text \<open>
  C4, as the code has it. When the catalog is read (and has the columns the loader needs),
  the image reference of every row is the placeholder if the column \<^verbatim>\<open>image_url\<close> is
  absent, if the cell is missing or a number, or if its text does not start with
  \<^verbatim>\<open>http\<close>; a text that starts with \<^verbatim>\<open>http\<close> is kept unchanged. The test is this
  prefix and nothing else.
\<close>

theorem image_url_prefix_rule:
  assumes "map_of (cols df) ''score'' = Some score"
    and "map_of (cols df) ''genres'' = Some genres"
    and "map_of (cols df) ''synopsis_clean'' = Some synopsis"
  shows "\<exists>out. load_data parse (Inr df) = Loaded out
    \<and> getitem out ''image_url'' =
        Inr (case map_of (cols df) ''image_url'' of
               None \<Rightarrow> replicate (nrows df) (Str placeholder)
             | Some col \<Rightarrow>
                 map (\<lambda>x. case x of Str s \<Rightarrow> if startswith s ''http'' then Str s else Str placeholder
                                  | NaN \<Rightarrow> Str placeholder
                                  | Num v \<Rightarrow> Str placeholder) col)"
proof -
  have ph: "image_or_placeholder (Str placeholder) = Str placeholder"
    by (simp add: image_or_placeholder_def)
  have ip: "image_or_placeholder x =
      (case x of Str s \<Rightarrow> if startswith s ''http'' then Str s else Str placeholder
               | NaN \<Rightarrow> Str placeholder | Num v \<Rightarrow> Str placeholder)" for x
    by (cases x) (simp_all add: image_or_placeholder_def startswith_def)
  show ?thesis
    by (simp add: load_data_def load_data_try_columns[OF assms] getitem_setitem ph ip
        split: option.splits)
qed

theorem image_url_prefix_rule_witness:
  "map_of (cols demo_csv) ''score'' = Some [Str ''8'', Str ''unknown'', NaN]
   \<and> map_of (cols demo_csv) ''genres'' = Some [Str ''Action'', NaN, Str ''Adventure'']
   \<and> map_of (cols demo_csv) ''synopsis_clean'' = Some [Str ''ninja'', NaN, Str ''pirates'']
   \<and> (\<exists>out. load_data demo_parse (Inr demo_csv) = Loaded out
        \<and> getitem out ''image_url'' =
            Inr [Str ''https://cdn.example/naruto.jpg'', Str ''httpfoo'', Str placeholder])"
  using image_url_prefix_rule [of demo_csv "[Str ''8'', Str ''unknown'', NaN]"
      "[Str ''Action'', NaN, Str ''Adventure'']" "[Str ''ninja'', NaN, Str ''pirates'']" demo_parse]
  by (auto simp: demo_csv_def startswith_def)

text \<open>
  C4, as stated, fails in both directions on the small catalog: \<^verbatim>\<open>httpfoo\<close> is not an
  absolute URI and is kept, and \<^verbatim>\<open>ftp://example.org/a.png\<close> is an absolute URI and is
  replaced by the placeholder.
\<close>

theorem image_url_not_uri_validation:
  "\<not> valid_absolute_uri ''httpfoo''
   \<and> valid_absolute_uri ''ftp://example.org/a.png''
   \<and> load_data demo_parse (Inr demo_csv) =
      Loaded \<lparr>nrows = 3,
        cols = [(''title'', [Str ''Naruto'', Str ''Bleach'', Str ''One Piece'']),
                (''genres'', [Str ''Action'', Str ''Unknown'', Str ''Adventure'']),
                (''score'', [Num 8, Num 0, Num 0]),
                (''synopsis'', [Str ''ninja'', NaN, Str ''pirates'']),
                (''synopsis_clean'', [Str ''ninja'', Str [], Str ''pirates'']),
                (''image_url'', [Str ''https://cdn.example/naruto.jpg'', Str ''httpfoo'',
                                 Str placeholder])]\<rparr>"
  by (simp add: valid_absolute_uri_def is_alpha_def is_digit_def less_eq_char_def
      load_data_def load_data_try_def getitem_def setitem_def image_or_placeholder_def
      startswith_def demo_csv_def demo_parse_def)

section \<open>Properties of the page script\<close>

lemma then_run_Done [simp]: "then_run (ws, Done) r = (ws @ fst r, snd r)"
  by (simp add: then_run_def)

lemma then_run_Stopped [simp]: "then_run (ws, Stopped) r = (ws, Stopped)"
  by (simp add: then_run_def)

lemma then_run_Raised [simp]: "then_run (ws, Raised e) r = (ws, Raised e)"
  by (simp add: then_run_def)

text \<open>The exceptions the \<^verbatim>\<open>try\<close> block can raise: the reader's, or a missing column.\<close>

lemma load_data_try_raises:
  "load_data_try parse csv = Inl e \<longleftrightarrow>
     csv = Inl e \<or> (\<exists>df. csv = Inr df \<and>
       (if map_of (cols df) ''score'' = None then e = KeyError ''score''
        else if map_of (cols df) ''genres'' = None then e = KeyError ''genres''
        else map_of (cols df) ''synopsis_clean'' = None \<and> e = KeyError ''synopsis_clean''))"
  by (cases csv)
     (auto simp: load_data_try_def getitem_def setitem_def update_conv' Let_def
        split: option.splits sum.splits if_splits)

text \<open>
  C8. If anything raises inside \<^verbatim>\<open>load_data\<close> (the file cannot be read, or a column the
  loader reads is absent), \<^verbatim>\<open>load_data\<close> reports the error and halts the script: for a
  logged-in user the run of \<^verbatim>\<open>main\<close> ends, halted, with the error message as its last
  widget, whatever the menu, the selection and the buttons of the request are; no model
  is built and no view is rendered.
\<close>

theorem load_failure_is_fatal:
  assumes "load_data_try (parse_float ext) (csv_file rq) = Inl e"
    and "css_file rq = Inr css" and "logged_in rq" and "username rq = Some name"
    and "logout ext = Done"
  shows "load_data (parse_float ext) (csv_file rq) =
           Load_failed (''Gagal memuat dataset: '' @ exc_str e)
    \<and> main ext rq =
        ([Page_config, Style css, Sidebar_user name, Logout_control, Page_title, Intro,
          Error (''Gagal memuat dataset: '' @ exc_str e)], Stopped)"
  using assms by (simp add: load_data_def main_def)

theorem load_failure_is_fatal_witness:
  "load_data_try (parse_float demo_externals)
      (csv_file (demo_request\<lparr>csv_file := Inl (OSError ''No such file or directory'')\<rparr>))
     = Inl (OSError ''No such file or directory'')
   \<and> main demo_externals (demo_request\<lparr>csv_file := Inl (OSError ''No such file or directory'')\<rparr>) =
        ([Page_config, Style ''body {}'', Sidebar_user ''wahyu'', Logout_control, Page_title, Intro,
          Error ''Gagal memuat dataset: No such file or directory''], Stopped)"
  using load_failure_is_fatal [of demo_externals
      "demo_request\<lparr>csv_file := Inl (OSError ''No such file or directory'')\<rparr>"
      "OSError ''No such file or directory''" "''body {}''" "''wahyu''"]
  by (simp add: demo_externals_def demo_request_def load_data_try_def)

lemma demo_loaded: "load_data demo_parse (Inr demo_csv) = Loaded demo_catalog"
  by (simp add: load_data_def load_data_try_def getitem_def setitem_def image_or_placeholder_def
      startswith_def demo_csv_def demo_parse_def demo_catalog_def)

text \<open>The similarity values a run shows, through the sequencing of its parts.\<close>

lemma fst_then_run: "fst (then_run a b) = (if snd a = Done then fst a @ fst b else fst a)"
  by (simp add: then_run_def split: outcome.splits)

lemma snd_then_run: "snd (then_run a b) = (if snd a = Done then snd b else snd a)"
  by (simp add: then_run_def split: outcome.splits)

lemma then_run_assoc: "then_run (then_run a b) c = then_run a (then_run b c)"
  by (simp add: then_run_def split: outcome.splits)

lemma similarities_append: "similarities (a @ b) = similarities a @ similarities b"
  by (induction a rule: similarities.induct) simp_all

lemma similarities_display:
  "similarities (fst (display_anime_card ext rq t g s sim syn img)) =
     (if is_Str s \<or> is_Str sim then [] else [sim])"
  by (simp add: display_anime_card_def Let_def)

lemma display_Done:
  "snd (display_anime_card ext rq t g s sim syn img) = Done \<Longrightarrow> \<not> is_Str s \<and> \<not> is_Str sim"
  by (simp add: display_anime_card_def Let_def split: if_splits)

lemma bookmark_card_similarities:
  "similarities (fst (bookmark_card ext rq df t)) =
     (if similarities (fst (bookmark_card ext rq df t)) = [] then [] else [Num 1])"
  by (simp add: bookmark_card_def similarities_display split: sum.splits)

lemma bookmark_card_Done:
  "snd (bookmark_card ext rq df t) = Done \<Longrightarrow> similarities (fst (bookmark_card ext rq df t)) = [Num 1]"
  by (auto simp: bookmark_card_def similarities_display split: sum.splits dest: display_Done)

lemma bookmark_cards_similarities:
  "set (similarities (fst (bookmark_cards ext rq df bs))) \<subseteq> {Num 1}"
proof (induction bs)
  case Nil
  show ?case by simp
next
  case (Cons b bs)
  have "set (similarities (fst (bookmark_card ext rq df b))) \<subseteq> {Num 1}"
    by (subst bookmark_card_similarities) simp
  with Cons show ?case
    by (simp add: fst_then_run similarities_append)
qed

lemma bookmark_cards_Done:
  "snd (bookmark_cards ext rq df bs) = Done \<Longrightarrow>
     similarities (fst (bookmark_cards ext rq df bs)) = replicate (length bs) (Num 1)"
proof (induction bs)
  case Nil
  show ?case by simp
next
  case (Cons b bs)
  from Cons.prems have d: "snd (bookmark_card ext rq df b) = Done"
    and ds: "snd (bookmark_cards ext rq df bs) = Done"
    by (simp_all add: snd_then_run split: if_splits)
  from Cons.IH[OF ds] bookmark_card_Done[OF d] d show ?case
    by (simp add: fst_then_run similarities_append)
qed

lemma bookmark_view_similarities:
  "set (similarities (fst (bookmark_view ext rq df))) \<subseteq> {Num 1}"
  using bookmark_cards_similarities[of ext rq df "get_bookmarks ext"]
  by (simp add: bookmark_view_def Let_def fst_then_run similarities_append)

lemma bookmark_view_Done:
  "snd (bookmark_view ext rq df) = Done \<Longrightarrow>
     similarities (fst (bookmark_view ext rq df)) = replicate (length (get_bookmarks ext)) (Num 1)"
  using bookmark_cards_Done[of ext rq df "get_bookmarks ext"]
  by (simp add: bookmark_view_def Let_def fst_then_run snd_then_run similarities_append
      split: if_splits)

text \<open>
  C9. In the bookmark view every similarity shown is the constant 1.0: no run of \<^verbatim>\<open>main\<close>
  with the menu on \<^verbatim>\<open>Bookmark\<close> shows any other similarity value, and a run of a logged-in
  user that reaches its end shows exactly one similarity 1.0 per bookmark.
\<close>

theorem bookmark_similarity_is_one:
  assumes "menu_choice rq = Bookmark"
  shows "set (similarities (fst (main ext rq))) \<subseteq> {Num 1}
    \<and> (logged_in rq \<and> snd (main ext rq) = Done \<longrightarrow>
         similarities (fst (main ext rq)) = replicate (length (get_bookmarks ext)) (Num 1))"
proof
  show "set (similarities (fst (main ext rq))) \<subseteq> {Num 1}"
    using assms bookmark_view_similarities[of ext rq]
    by (simp add: main_def fst_then_run similarities_append
        split: sum.splits option.splits loaded.splits)
  show "logged_in rq \<and> snd (main ext rq) = Done \<longrightarrow>
         similarities (fst (main ext rq)) = replicate (length (get_bookmarks ext)) (Num 1)"
    using assms bookmark_view_Done[of ext rq]
    by (simp add: main_def fst_then_run snd_then_run similarities_append
        split: sum.splits option.splits loaded.splits if_splits)
qed

theorem bookmark_similarity_is_one_witness:
  "menu_choice demo_request = Bookmark
   \<and> logged_in demo_request
   \<and> main demo_externals demo_request =
       ([Page_config, Style ''body {}'', Sidebar_user ''wahyu'', Logout_control,
         Page_title, Intro, Menu_radio, Bookmarks_heading, Multiselect [''Naruto''],
         Delete_button, Card_image (Str ''https://cdn.example/naruto.jpg''),
         Card_title (Str ''Naruto''), Genre (Str ''Action''), Rating (Num 8),
         Similarity (Num 1), Synopsis (Str ''ninja''), Bookmark_button (Str ''Naruto'')], Done)
   \<and> similarities (fst (main demo_externals demo_request)) =
       replicate (length (get_bookmarks demo_externals)) (Num 1)"
proof -
  have run: "main demo_externals demo_request =
       ([Page_config, Style ''body {}'', Sidebar_user ''wahyu'', Logout_control,
         Page_title, Intro, Menu_radio, Bookmarks_heading, Multiselect [''Naruto''],
         Delete_button, Card_image (Str ''https://cdn.example/naruto.jpg''),
         Card_title (Str ''Naruto''), Genre (Str ''Action''), Rating (Num 8),
         Similarity (Num 1), Synopsis (Str ''ninja''), Bookmark_button (Str ''Naruto'')], Done)"
    by (simp add: main_def demo_externals_def demo_request_def demo_loaded bookmark_view_def
        bookmark_card_def bookmark_row_def getitem_def iloc0_def row_at_def series_get_def
        display_anime_card_def demo_catalog_def)
  have menu: "menu_choice demo_request = Bookmark" and li: "logged_in demo_request"
    by (simp_all add: demo_request_def)
  from bookmark_similarity_is_one [OF menu, of demo_externals] li run menu
  show ?thesis by (simp add: demo_externals_def)
qed

text \<open>The first row a selection picks, and the loop over a list of bookmarks split in two.\<close>

lemma first_index_None: "first_index bs = None \<longleftrightarrow> True \<notin> set bs"
  by (induction bs) auto

lemma first_index_Some:
  "i < length bs \<Longrightarrow> bs ! i \<Longrightarrow> (\<forall>j<i. \<not> bs ! j) \<Longrightarrow> first_index bs = Some i"
proof (induction bs arbitrary: i)
  case Nil
  then show ?case by simp
next
  case (Cons b bs)
  show ?case
  proof (cases i)
    case 0
    with Cons.prems show ?thesis by simp
  next
    case (Suc k)
    with Cons.prems have "\<not> b" by auto
    moreover from Suc Cons.prems have "first_index bs = Some k"
      by (intro Cons.IH) auto
    ultimately show ?thesis using Suc by simp
  qed
qed

lemma bookmark_cards_append:
  "bookmark_cards ext rq df (pre @ post) =
     then_run (bookmark_cards ext rq df pre) (bookmark_cards ext rq df post)"
  by (induction pre) (simp_all add: then_run_assoc)

text \<open>
  C10. The bookmark view looks a bookmarked title up by equality with the stored title,
  letter case included, and takes the first row that matches. A bookmarked title that no
  row carries (one that differs from a stored title in case only, for instance) selects no
  row: the lookup raises \<^verbatim>\<open>IndexError\<close>, and the loop over the bookmarks, having rendered
  the cards before it, ends with that exception instead of skipping the title.
\<close>

theorem bookmark_lookup_is_exact:
  assumes "getitem df ''title'' = Inr titles"
  shows "(i < length titles \<and> titles ! i = Str t \<and> (\<forall>j<i. titles ! j \<noteq> Str t)
           \<longrightarrow> bookmark_row df t = Inr (row_at df i))
    \<and> (Str t \<notin> set titles \<longrightarrow>
         bookmark_row df t = Inl IndexError
         \<and> (snd (bookmark_cards ext rq df pre) = Done \<longrightarrow>
              bookmark_cards ext rq df (pre @ t # post) =
                (fst (bookmark_cards ext rq df pre), Raised IndexError)))"
proof (intro conjI impI)
  assume "i < length titles \<and> titles ! i = Str t \<and> (\<forall>j<i. titles ! j \<noteq> Str t)"
  then have "first_index (map (\<lambda>c. c = Str t) titles) = Some i"
    by (intro first_index_Some) auto
  with assms show "bookmark_row df t = Inr (row_at df i)"
    by (simp add: bookmark_row_def iloc0_def)
next
  assume absent: "Str t \<notin> set titles"
  then have "first_index (map (\<lambda>c. c = Str t) titles) = None"
    by (auto simp: first_index_None)
  with assms show row: "bookmark_row df t = Inl IndexError"
    by (simp add: bookmark_row_def iloc0_def)
  assume "snd (bookmark_cards ext rq df pre) = Done"
  with row show "bookmark_cards ext rq df (pre @ t # post) =
                (fst (bookmark_cards ext rq df pre), Raised IndexError)"
    by (simp add: bookmark_cards_append bookmark_card_def then_run_def)
qed

theorem bookmark_lookup_is_exact_witness:
  "getitem demo_catalog ''title'' = Inr [Str ''Naruto'', Str ''Bleach'', Str ''One Piece'']
   \<and> bookmark_row demo_catalog ''Bleach'' = Inr (row_at demo_catalog 1)
   \<and> Str ''naruto'' \<notin> set [Str ''Naruto'', Str ''Bleach'', Str ''One Piece'']
   \<and> bookmark_row demo_catalog ''naruto'' = Inl IndexError
   \<and> snd (bookmark_cards demo_externals demo_request demo_catalog [''Naruto'']) = Done
   \<and> bookmark_cards demo_externals demo_request demo_catalog [''Naruto'', ''naruto''] =
       ([Card_image (Str ''https://cdn.example/naruto.jpg''), Card_title (Str ''Naruto''),
         Genre (Str ''Action''), Rating (Num 8), Similarity (Num 1), Synopsis (Str ''ninja''),
         Bookmark_button (Str ''Naruto'')], Raised IndexError)"
proof -
  have titles: "getitem demo_catalog ''title'' = Inr [Str ''Naruto'', Str ''Bleach'', Str ''One Piece'']"
    by (simp add: getitem_def demo_catalog_def)
  have one: "bookmark_cards demo_externals demo_request demo_catalog [''Naruto''] =
       ([Card_image (Str ''https://cdn.example/naruto.jpg''), Card_title (Str ''Naruto''),
         Genre (Str ''Action''), Rating (Num 8), Similarity (Num 1), Synopsis (Str ''ninja''),
         Bookmark_button (Str ''Naruto'')], Done)"
    by (simp add: demo_externals_def demo_request_def
        bookmark_card_def bookmark_row_def getitem_def iloc0_def row_at_def series_get_def
        display_anime_card_def demo_catalog_def)
  from bookmark_lookup_is_exact [OF titles, of 1 "''Bleach''"]
  have found: "bookmark_row demo_catalog ''Bleach'' = Inr (row_at demo_catalog 1)"
    by (simp add: less_Suc_eq)
  from bookmark_lookup_is_exact [OF titles, of _ "''naruto''" demo_externals demo_request
      "[''Naruto'']" "[]"] one
  have "bookmark_row demo_catalog ''naruto'' = Inl IndexError
    \<and> bookmark_cards demo_externals demo_request demo_catalog [''Naruto'', ''naruto''] =
       ([Card_image (Str ''https://cdn.example/naruto.jpg''), Card_title (Str ''Naruto''),
         Genre (Str ''Action''), Rating (Num 8), Similarity (Num 1), Synopsis (Str ''ninja''),
         Bookmark_button (Str ''Naruto'')], Raised IndexError)"
    by simp
  with titles found one show ?thesis by simp
qed

section \<open>Properties of the recommender of the specification\<close>

text \<open>
  Lowering the letters A to Z is idempotent, and texts that differ only in the case of
  those letters have one lowered form.
\<close>

lemma lower_char_idem: "lower_char (lower_char c) = lower_char c"
  by (auto simp: lower_char_def upper_letters_def lower_letters_def)

lemma same_letter_lower: "same_letter x y \<Longrightarrow> lower_char x = lower_char y"
  by (auto simp: same_letter_def lower_char_idem)

lemma differ_only_in_ascii_case_lower:
  "differ_only_in_ascii_case a b \<Longrightarrow> ascii_lower a = ascii_lower b"
  unfolding differ_only_in_ascii_case_def ascii_lower_def
  by (induction a b rule: list_all2_induct) (simp_all add: same_letter_lower)

text \<open>A query resolves to no item exactly when no title equals it after lowering.\<close>

lemma resolve_title_None:
  "resolve_title lower df q = None \<longleftrightarrow>
     (\<forall>t. Str t \<in> set (titles_of df) \<longrightarrow> lower t \<noteq> lower q)"
proof -
  have "True \<in> set (map (title_matches lower q) cs) \<longleftrightarrow>
      (\<exists>t. Str t \<in> set cs \<and> lower t = lower q)" for cs
  proof (induction cs)
    case Nil
    show ?case by simp
  next
    case (Cons c cs)
    then show ?case by (cases c) auto
  qed
  then show ?thesis
    by (auto simp: resolve_title_def first_index_None)
qed

text \<open>
  C1. Against the recommender of the specification: for a query title that equals no
  catalog title after lowering, the recommender returns the "not found" text, and the
  caller (app.py, lines 139 to 146) shows that text as a warning and the run goes on to
  its end; nothing is raised and no result list is shown.
\<close>

theorem not_found_is_a_warning:
  assumes "recommend_anime ext (Some (Str q)) matrix df n =
      Inr (recommend not_found lower q matrix df n)"
    and "\<forall>t. Str t \<in> set (titles_of df) \<longrightarrow> lower t \<noteq> lower q"
  shows "recommend not_found lower q matrix df n = Inl (not_found q)
    \<and> show_recommendations_block ext rq df matrix (Some (Str q)) n =
        ([Spinner, Warning (not_found q)], Done)"
proof -
  from assms(2) have "resolve_title lower df q = None"
    by (simp add: resolve_title_None)
  then have "recommend not_found lower q matrix df n = Inl (not_found q)"
    by (simp add: recommend_def)
  with assms(1) show ?thesis
    by (simp add: show_recommendations_block_def)
qed

theorem not_found_is_a_warning_witness:
  "recommend_anime spec_externals (Some (Str ''Gintama'')) demo_matrix demo_catalog 5 =
     Inr (recommend demo_not_found ascii_lower ''Gintama'' demo_matrix demo_catalog 5)
   \<and> recommend demo_not_found ascii_lower ''Gintama'' demo_matrix demo_catalog 5 =
       Inl ''Anime tidak ditemukan: Gintama''
   \<and> show_recommendations_block spec_externals demo_request demo_catalog demo_matrix
        (Some (Str ''Gintama'')) 5 = ([Spinner, Warning ''Anime tidak ditemukan: Gintama''], Done)"
proof -
  have callee: "recommend_anime spec_externals (Some (Str ''Gintama'')) demo_matrix demo_catalog 5 =
     Inr (recommend demo_not_found ascii_lower ''Gintama'' demo_matrix demo_catalog 5)"
    by (simp add: spec_externals_def demo_externals_def)
  have nomatch: "\<forall>t. Str t \<in> set (titles_of demo_catalog) \<longrightarrow>
      ascii_lower t \<noteq> ascii_lower ''Gintama''"
    by (auto simp: titles_of_def demo_catalog_def ascii_lower_def lower_char_def upper_letters_def
        lower_letters_def)
  from not_found_is_a_warning [OF callee nomatch, of demo_request] callee
  show ?thesis by (simp add: demo_not_found_def)
qed

lemma titles_of_getitem: "getitem df ''title'' = Inr titles \<Longrightarrow> titles_of df = titles"
  by (simp add: getitem_def titles_of_def split: option.splits)

text \<open>
  C2, as the code has it. A query resolves to the first row whose lowered title equals
  the lowered query: to row \<open>i\<close> when the lowered title of row \<open>i\<close> equals the lowered
  query and no earlier row has that lowered title. This holds of the recommender of the
  specification and of the caller's lookup of the selected item (app.py, lines 148 and
  149), which compares lowered titles in the same way.
\<close>

theorem first_lowered_match_resolves:
  assumes "getitem df ''title'' = Inr titles"
    and "i < length titles" and "titles ! i = Str t"
    and "lower q = lower t"
    and "\<forall>j<i. \<forall>s. titles ! j = Str s \<longrightarrow> lower s \<noteq> lower q"
  shows "resolve_title lower df q = Some i
    \<and> selected_info lower df (Some (Str q)) = Inr (row_at df i)"
proof -
  from assms(4) have low: "lower t = lower q"
    by simp
  have earlier: "\<not> title_matches lower q (titles ! j)" if "j < i" for j
    using assms(5) that by (cases "titles ! j") auto
  have "first_index (map (title_matches lower q) titles) = Some i"
    using assms(2,3) low earlier by (intro first_index_Some) auto
  then have res: "resolve_title lower df q = Some i"
    by (simp add: resolve_title_def titles_of_getitem[OF assms(1)])
  have ex: "list_ex is_Str titles"
    using assms(3) nth_mem[OF assms(2)] by (auto simp: list_ex_iff intro: bexI[of _ "Str t"])
  have earlier': "lower_cell lower (titles ! j) \<noteq> Str (lower q)" if "j < i" for j
    using assms(5) that by (cases "titles ! j") auto
  have "first_index (map (\<lambda>c. c = Str (lower q)) (map (lower_cell lower) titles)) = Some i"
    using assms(2,3) low earlier' by (intro first_index_Some) auto
  with ex assms(1) have "selected_info lower df (Some (Str q)) = Inr (row_at df i)"
    by (simp add: selected_info_def str_lower_def iloc0_def)
  with res show ?thesis by simp
qed

theorem first_lowered_match_resolves_witness:
  "getitem demo_catalog ''title'' = Inr [Str ''Naruto'', Str ''Bleach'', Str ''One Piece'']
   \<and> differ_only_in_ascii_case ''bLEACH'' ''Bleach''
   \<and> ascii_lower ''bLEACH'' = ascii_lower ''Bleach''
   \<and> resolve_title ascii_lower demo_catalog ''bLEACH'' = Some 1
   \<and> selected_info ascii_lower demo_catalog (Some (Str ''bLEACH'')) = Inr (row_at demo_catalog 1)"
proof -
  have titles: "getitem demo_catalog ''title'' = Inr [Str ''Naruto'', Str ''Bleach'', Str ''One Piece'']"
    by (simp add: getitem_def demo_catalog_def)
  have d: "differ_only_in_ascii_case ''bLEACH'' ''Bleach''"
    by (simp add: differ_only_in_ascii_case_def same_letter_def lower_char_def is_upper_def
        upper_letters_def lower_letters_def)
  have l: "ascii_lower ''bLEACH'' = ascii_lower ''Bleach''"
    using d by (rule differ_only_in_ascii_case_lower)
  have e: "\<forall>j<1. \<forall>s. [Str ''Naruto'', Str ''Bleach'', Str ''One Piece''] ! j = Str s
        \<longrightarrow> ascii_lower s \<noteq> ascii_lower ''bLEACH''"
    by (simp add: ascii_lower_def lower_char_def upper_letters_def lower_letters_def)
  from first_lowered_match_resolves [OF titles _ _ l e] titles d l
  show ?thesis by simp
qed

text \<open>
  C2, as stated, fails where two rows carry one title in two spellings: the query
  \<^verbatim>\<open>NARUTO\<close> differs from the stored title \<^verbatim>\<open>Naruto\<close> of the second row only in letter
  case, and resolves to the first row, titled \<^verbatim>\<open>naruto\<close>, in the recommender of the
  specification and in the caller's lookup alike.
\<close>

theorem case_variant_resolves_to_earlier_row:
  "getitem twin_catalog ''title'' = Inr [Str ''naruto'', Str ''Naruto'']
   \<and> differ_only_in_ascii_case ''NARUTO'' ''Naruto''
   \<and> resolve_title ascii_lower twin_catalog ''NARUTO'' = Some 0
   \<and> selected_info ascii_lower twin_catalog (Some (Str ''NARUTO'')) =
       Inr [(''title'', Str ''naruto''), (''genres'', Str ''Parody''), (''score'', Num 5),
            (''synopsis'', Str ''a spoof''), (''synopsis_clean'', Str ''spoof''),
            (''image_url'', Str placeholder)]
   \<and> row_at twin_catalog 1 =
       [(''title'', Str ''Naruto''), (''genres'', Str ''Action''), (''score'', Num 8),
        (''synopsis'', Str ''ninja''), (''synopsis_clean'', Str ''ninja''),
        (''image_url'', Str ''https://cdn.example/naruto.jpg'')]"
  by (simp add: getitem_def twin_catalog_def differ_only_in_ascii_case_def same_letter_def
      lower_char_def is_upper_def upper_letters_def lower_letters_def resolve_title_def
      titles_of_def ascii_lower_def selected_info_def str_lower_def iloc0_def row_at_def)

text \<open>The ranking of the other items: what it holds, in which order.\<close>

lemma wf_frame_column: "wf_frame df \<Longrightarrow> map_of (cols df) c = Some col \<Longrightarrow> length col = nrows df"
  by (fastforce simp: wf_frame_def list_all_iff dest: map_of_SomeD)

lemma first_index_less: "first_index bs = Some i \<Longrightarrow> i < length bs"
  by (induction bs arbitrary: i) (auto split: if_splits)

lemma resolve_title_less:
  "wf_frame df \<Longrightarrow> resolve_title lower df q = Some idx \<Longrightarrow> idx < nrows df"
  by (auto simp: resolve_title_def titles_of_def wf_frame_column
      split: option.splits dest!: first_index_less)

lemma others_set: "set (filter (\<lambda>j. j \<noteq> idx) [0..<n]) = {0..<n} - {idx}"
  by auto

lemma length_others: "idx < n \<Longrightarrow> length (filter (\<lambda>j. j \<noteq> idx) [0..<n]) = n - 1"
proof (induction n)
  case 0
  then show ?case by simp
next
  case (Suc n)
  show ?case
  proof (cases "idx = n")
    case True
    have "filter (\<lambda>j. j \<noteq> n) [0..<n] = [0..<n]"
      by (rule filter_True) simp
    with True show ?thesis by simp
  next
    case False
    with Suc show ?thesis by simp
  qed
qed

lemma ranked_others_snd:
  "p \<in> set (ranked_others idx scores n) \<Longrightarrow> snd p = scores ! fst p"
  by (auto simp: ranked_others_def)

lemma ranked_others_fst:
  "set (map fst (ranked_others idx scores n)) = {0..<n} - {idx}"
  "distinct (map fst (ranked_others idx scores n))"
proof -
  let ?xs = "map (\<lambda>j. (j, scores ! j)) (filter (\<lambda>j. j \<noteq> idx) [0..<n])"
  have m: "map fst ?xs = filter (\<lambda>j. j \<noteq> idx) [0..<n]"
    by (simp add: comp_def)
  have "set (map fst (ranked_others idx scores n)) = fst ` set ?xs"
    by (simp add: ranked_others_def)
  also have "\<dots> = set (map fst ?xs)"
    by (simp only: set_map)
  finally have "set (map fst (ranked_others idx scores n)) =
      set (filter (\<lambda>j. j \<noteq> idx) [0..<n])"
    unfolding m .
  then show "set (map fst (ranked_others idx scores n)) = {0..<n} - {idx}"
    by (simp only: others_set)
  have "distinct ?xs"
    by (simp add: distinct_map inj_on_def)
  moreover have "inj_on fst (set ?xs)"
    by (auto simp: inj_on_def)
  ultimately show "distinct (map fst (ranked_others idx scores n))"
    by (simp add: distinct_map ranked_others_def)
qed

lemma ranked_others_sorted:
  "sorted_wrt (\<lambda>p p'. snd p' \<le> snd p) (ranked_others idx scores n)"
proof -
  have "sorted (map (\<lambda>p. - snd p) (ranked_others idx scores n))"
    by (simp add: ranked_others_def)
  then show ?thesis
    by (simp add: sorted_wrt_map)
qed

lemma ranked_others_length: "idx < n \<Longrightarrow> length (ranked_others idx scores n) = n - 1"
  by (simp add: ranked_others_def length_others)

text \<open>What the first \<open>k\<close> entries of the ranking are.\<close>

lemma top_of_ranking:
  fixes idx n k :: nat and scores :: "real list"
  assumes "idx < n"
  defines "picked \<equiv> map fst (take k (ranked_others idx scores n))"
  shows "map (\<lambda>p. Num (snd p)) (take k (ranked_others idx scores n)) =
           map (\<lambda>j. Num (scores ! j)) picked"
    and "length picked = min k (n - 1)"
    and "distinct picked"
    and "set picked \<subseteq> {0..<n} - {idx}"
    and "sorted_wrt (\<lambda>x y. y \<le> x) (map (\<lambda>j. scores ! j) picked)"
    and "\<forall>j\<in>{0..<n} - {idx} - set picked. \<forall>m\<in>set picked. scores ! j \<le> scores ! m"
    and "n - 1 \<le> k \<longrightarrow> set picked = {0..<n} - {idx}"
proof -
  let ?r = "ranked_others idx scores n"
  have snd_eq: "snd p = scores ! fst p" if "p \<in> set (take k ?r)" for p
    using that by (auto dest: in_set_takeD ranked_others_snd)
  show "map (\<lambda>p. Num (snd p)) (take k ?r) = map (\<lambda>j. Num (scores ! j)) picked"
    unfolding picked_def by (simp add: snd_eq)
  show "length picked = min k (n - 1)"
    unfolding picked_def using assms(1) by (simp add: ranked_others_length min.commute)
  have set_fst: "set (map fst ?r) = {0..<n} - {idx}"
    by (rule ranked_others_fst)
  have dist: "distinct (map fst ?r)"
    by (rule ranked_others_fst)
  have picked_take: "picked = take k (map fst ?r)"
    unfolding picked_def by (simp add: take_map)
  show "distinct picked"
    unfolding picked_take using dist by (rule distinct_take)
  show "set picked \<subseteq> {0..<n} - {idx}"
    unfolding picked_take using set_fst set_take_subset[of k "map fst ?r"] by blast
  have srt: "sorted_wrt (\<lambda>p p'. snd p' \<le> snd p) (take k ?r @ drop k ?r)"
    using ranked_others_sorted[of idx scores n] by simp
  then have "sorted_wrt (\<lambda>p p'. snd p' \<le> snd p) (take k ?r)"
    unfolding sorted_wrt_append by simp
  then have "sorted_wrt (\<lambda>x y. y \<le> x) (map snd (take k ?r))"
    by (simp add: sorted_wrt_map)
  moreover have "map snd (take k ?r) = map (\<lambda>j. scores ! j) picked"
    unfolding picked_def by (simp add: snd_eq)
  ultimately show "sorted_wrt (\<lambda>x y. y \<le> x) (map (\<lambda>j. scores ! j) picked)"
    by simp
  show "\<forall>j\<in>{0..<n} - {idx} - set picked. \<forall>m\<in>set picked. scores ! j \<le> scores ! m"
  proof (intro ballI)
    fix j m
    assume j: "j \<in> {0..<n} - {idx} - set picked" and m: "m \<in> set picked"
    from j set_fst have "j \<in> set (map fst (take k ?r @ drop k ?r))"
      by simp
    then have "j \<in> set (map fst (take k ?r)) \<union> set (map fst (drop k ?r))"
      by (simp only: map_append set_append)
    with j have "j \<in> set (map fst (drop k ?r))"
      unfolding picked_def by blast
    then obtain p' where p': "p' \<in> set (drop k ?r)" "fst p' = j"
      by auto
    from m obtain p where p: "p \<in> set (take k ?r)" "fst p = m"
      unfolding picked_def by auto
    from srt p(1) p'(1) have "snd p' \<le> snd p"
      unfolding sorted_wrt_append by blast
    moreover have "snd p = scores ! m"
      using snd_eq[OF p(1)] p(2) by simp
    moreover have "snd p' = scores ! j"
      using ranked_others_snd[of p' idx scores n] p' by (auto dest: in_set_dropD)
    ultimately show "scores ! j \<le> scores ! m"
      by simp
  qed
  show "n - 1 \<le> k \<longrightarrow> set picked = {0..<n} - {idx}"
    unfolding picked_take using set_fst assms(1) by (auto simp: ranked_others_length)
qed

text \<open>The recommendation view once the results are to be shown.\<close>

lemma rekomendasi_view_shown:
  assumes "getitem df ''title'' = Inr titles" and "sorted_unique titles = Inr options"
    and "recommend_clicked rq \<or> show_recommendations rq"
  shows "rekomendasi_view ext rq df matrix =
     then_run ([Sidebar_title, Selectbox options, Slider (st_slider 1 10 5 (slider_position rq)),
                Recommend_button], Done)
       (show_recommendations_block ext rq df matrix (st_selectbox options (anime_choice rq))
          (st_slider 1 10 5 (slider_position rq)))"
  using assms by (auto simp: rekomendasi_view_def Let_def)

text \<open>
  C5. Against the recommender of the specification: for a query that resolves to item
  \<open>idx\<close>, a catalog and a matrix of matching shape and \<open>top_n\<close> at least 1, the
  recommender returns exactly \<open>min top_n (catalog size - 1)\<close> entries, one row each and
  one card each for the caller. They are distinct items other than the query item, in
  descending order of their similarity to it, no item left out is more similar than one
  returned, and all other items are returned when there are no more than \<open>top_n\<close> of
  them. The caller (app.py, lines 118 to 146) passes as \<open>top_n\<close> the value of a slider
  with bounds 1 and 10: a number between 1 and 10, the user's position when that is in
  range, and what the view shows is what \<^verbatim>\<open>recommend_anime\<close> returns for that number.
\<close>

theorem recommend_returns_top_n:
  assumes "wf_frame df" and "square_matrix (nrows df) matrix"
    and "resolve_title lower df q = Some idx" and "1 \<le> top_n"
    and "getitem df ''title'' = Inr titles" and "sorted_unique titles = Inr options"
    and "recommend_clicked rq \<or> show_recommendations rq"
  shows "(\<exists>picked recs. recommend not_found lower q matrix df top_n = Inr recs
            \<and> recs = setitem (select_rows df picked) ''similarity''
                       (map (\<lambda>j. Num (matrix ! idx ! j)) picked)
            \<and> nrows recs = min (nat top_n) (nrows df - 1)
            \<and> length (iterrows recs) = min (nat top_n) (nrows df - 1)
            \<and> length picked = min (nat top_n) (nrows df - 1)
            \<and> distinct picked \<and> set picked \<subseteq> {0..<nrows df} - {idx}
            \<and> sorted_wrt (\<lambda>x y. y \<le> x) (map (\<lambda>j. matrix ! idx ! j) picked)
            \<and> (\<forall>j\<in>{0..<nrows df} - {idx} - set picked. \<forall>m\<in>set picked.
                   matrix ! idx ! j \<le> matrix ! idx ! m)
            \<and> (nrows df - 1 \<le> nat top_n \<longrightarrow> set picked = {0..<nrows df} - {idx}))
    \<and> (\<exists>n. 1 \<le> n \<and> n \<le> 10
          \<and> (1 \<le> slider_position rq \<and> slider_position rq \<le> 10 \<longrightarrow> n = slider_position rq)
          \<and> rekomendasi_view ext rq df matrix =
              then_run ([Sidebar_title, Selectbox options, Slider n, Recommend_button], Done)
                (show_recommendations_block ext rq df matrix
                   (st_selectbox options (anime_choice rq)) n)
          \<and> (\<forall>message.
                recommend_anime ext (st_selectbox options (anime_choice rq)) matrix df n =
                  Inr (Inl message) \<longrightarrow>
                rekomendasi_view ext rq df matrix =
                  ([Sidebar_title, Selectbox options, Slider n, Recommend_button, Spinner,
                    Warning message], Done))
          \<and> (\<forall>e.
                recommend_anime ext (st_selectbox options (anime_choice rq)) matrix df n = Inl e \<longrightarrow>
                rekomendasi_view ext rq df matrix =
                  ([Sidebar_title, Selectbox options, Slider n, Recommend_button, Spinner],
                   Raised e)))"
proof (rule conjI)
  let ?k = "nat top_n"
  let ?picked = "map fst (take ?k (ranked_others idx (matrix ! idx) (nrows df)))"
  let ?recs = "setitem (select_rows df ?picked) ''similarity''
                 (map (\<lambda>j. Num (matrix ! idx ! j)) ?picked)"
  from assms(1,3) have idx: "idx < nrows df"
    by (rule resolve_title_less)
  note top = top_of_ranking [OF idx, where k = "?k" and scores = "matrix ! idx"]
  have "recommend not_found lower q matrix df top_n =
      Inr (setitem (select_rows df ?picked) ''similarity''
             (map (\<lambda>p. Num (snd p)) (take ?k (ranked_others idx (matrix ! idx) (nrows df)))))"
    using assms(3) by (simp add: recommend_def Let_def)
  then have "recommend not_found lower q matrix df top_n = Inr ?recs"
    by (simp only: top(1))
  moreover have "nrows ?recs = min ?k (nrows df - 1)"
    using top(2) by (simp add: nrows_setitem select_rows_def)
  moreover have "length (iterrows ?recs) = min ?k (nrows df - 1)"
    using top(2) by (simp add: iterrows_def nrows_setitem select_rows_def)
  ultimately show "\<exists>picked recs. recommend not_found lower q matrix df top_n = Inr recs
            \<and> recs = setitem (select_rows df picked) ''similarity''
                       (map (\<lambda>j. Num (matrix ! idx ! j)) picked)
            \<and> nrows recs = min (nat top_n) (nrows df - 1)
            \<and> length (iterrows recs) = min (nat top_n) (nrows df - 1)
            \<and> length picked = min (nat top_n) (nrows df - 1)
            \<and> distinct picked \<and> set picked \<subseteq> {0..<nrows df} - {idx}
            \<and> sorted_wrt (\<lambda>x y. y \<le> x) (map (\<lambda>j. matrix ! idx ! j) picked)
            \<and> (\<forall>j\<in>{0..<nrows df} - {idx} - set picked. \<forall>m\<in>set picked.
                   matrix ! idx ! j \<le> matrix ! idx ! m)
            \<and> (nrows df - 1 \<le> nat top_n \<longrightarrow> set picked = {0..<nrows df} - {idx})"
    using top(2-7) by blast
next
  let ?n = "st_slider 1 10 5 (slider_position rq)"
  have bounds: "1 \<le> ?n" "?n \<le> 10"
    "1 \<le> slider_position rq \<and> slider_position rq \<le> 10 \<longrightarrow> ?n = slider_position rq"
    by (simp_all add: st_slider_def)
  note view = rekomendasi_view_shown [OF assms(5,6,7), of ext matrix]
  have warn: "rekomendasi_view ext rq df matrix =
      ([Sidebar_title, Selectbox options, Slider ?n, Recommend_button, Spinner, Warning message],
       Done)"
    if "recommend_anime ext (st_selectbox options (anime_choice rq)) matrix df ?n =
          Inr (Inl message)" for message
    using that by (simp add: view show_recommendations_block_def)
  have raise: "rekomendasi_view ext rq df matrix =
      ([Sidebar_title, Selectbox options, Slider ?n, Recommend_button, Spinner], Raised e)"
    if "recommend_anime ext (st_selectbox options (anime_choice rq)) matrix df ?n = Inl e" for e
    using that by (simp add: view show_recommendations_block_def)
  from bounds view warn raise
  show "\<exists>n. 1 \<le> n \<and> n \<le> 10
          \<and> (1 \<le> slider_position rq \<and> slider_position rq \<le> 10 \<longrightarrow> n = slider_position rq)
          \<and> rekomendasi_view ext rq df matrix =
              then_run ([Sidebar_title, Selectbox options, Slider n, Recommend_button], Done)
                (show_recommendations_block ext rq df matrix
                   (st_selectbox options (anime_choice rq)) n)
          \<and> (\<forall>message.
                recommend_anime ext (st_selectbox options (anime_choice rq)) matrix df n =
                  Inr (Inl message) \<longrightarrow>
                rekomendasi_view ext rq df matrix =
                  ([Sidebar_title, Selectbox options, Slider n, Recommend_button, Spinner,
                    Warning message], Done))
          \<and> (\<forall>e.
                recommend_anime ext (st_selectbox options (anime_choice rq)) matrix df n = Inl e \<longrightarrow>
                rekomendasi_view ext rq df matrix =
                  ([Sidebar_title, Selectbox options, Slider n, Recommend_button, Spinner],
                   Raised e))"
    by blast
qed

theorem recommend_returns_top_n_witness:
  "wf_frame demo_catalog \<and> square_matrix (nrows demo_catalog) demo_matrix
   \<and> resolve_title ascii_lower demo_catalog ''Naruto'' = Some 0
   \<and> getitem demo_catalog ''title'' = Inr [Str ''Naruto'', Str ''Bleach'', Str ''One Piece'']
   \<and> sorted_unique [Str ''Naruto'', Str ''Bleach'', Str ''One Piece''] =
        Inr [Str ''Bleach'', Str ''Naruto'', Str ''One Piece'']
   \<and> show_recommendations demo_recommend_request
   \<and> recommend demo_not_found ascii_lower ''Naruto'' demo_matrix demo_catalog 5 =
        Inr \<lparr>nrows = 2,
             cols = [(''title'', [Str ''One Piece'', Str ''Bleach'']),
                     (''genres'', [Str ''Adventure'', Str ''Unknown'']),
                     (''score'', [Num 0, Num 0]),
                     (''synopsis'', [Str ''pirates'', NaN]),
                     (''synopsis_clean'', [Str ''pirates'', Str []]),
                     (''image_url'', [Str placeholder, Str ''httpfoo'']),
                     (''similarity'', [Num (9 / 10), Num (1 / 5)])]\<rparr>
   \<and> (\<exists>n. 1 \<le> n \<and> n \<le> 10
         \<and> rekomendasi_view spec_externals demo_recommend_request demo_catalog demo_matrix =
             then_run ([Sidebar_title, Selectbox [Str ''Bleach'', Str ''Naruto'', Str ''One Piece''],
                        Slider n, Recommend_button], Done)
               (show_recommendations_block spec_externals demo_recommend_request demo_catalog
                  demo_matrix (Some (Str ''Naruto'')) n))"
proof -
  have wf: "wf_frame demo_catalog"
    by (simp add: wf_frame_def demo_catalog_def)
  have sq: "square_matrix (nrows demo_catalog) demo_matrix"
    by (simp add: square_matrix_def demo_catalog_def demo_matrix_def)
  have res: "resolve_title ascii_lower demo_catalog ''Naruto'' = Some 0"
    by (simp add: resolve_title_def titles_of_def demo_catalog_def)
  have titles: "getitem demo_catalog ''title'' = Inr [Str ''Naruto'', Str ''Bleach'', Str ''One Piece'']"
    by (simp add: getitem_def demo_catalog_def)
  have opts: "sorted_unique [Str ''Naruto'', Str ''Bleach'', Str ''One Piece''] =
      Inr [Str ''Bleach'', Str ''Naruto'', Str ''One Piece'']"
    by (simp add: sorted_unique_def less_eq_char_def)
  have shown: "recommend_clicked demo_recommend_request \<or> show_recommendations demo_recommend_request"
    by (simp add: demo_recommend_request_def demo_request_def)
  have recs: "recommend demo_not_found ascii_lower ''Naruto'' demo_matrix demo_catalog 5 =
        Inr \<lparr>nrows = 2,
             cols = [(''title'', [Str ''One Piece'', Str ''Bleach'']),
                     (''genres'', [Str ''Adventure'', Str ''Unknown'']),
                     (''score'', [Num 0, Num 0]),
                     (''synopsis'', [Str ''pirates'', NaN]),
                     (''synopsis_clean'', [Str ''pirates'', Str []]),
                     (''image_url'', [Str placeholder, Str ''httpfoo'']),
                     (''similarity'', [Num (9 / 10), Num (1 / 5)])]\<rparr>"
  proof -
    have others: "filter (\<lambda>j. j \<noteq> 0) [0..<3] = [1, 2::nat]"
      by (simp add: upt_conv_Cons)
    have n: "nrows demo_catalog = 3"
      by (simp add: demo_catalog_def)
    have rk: "ranked_others 0 (demo_matrix ! 0) (nrows demo_catalog) = [(2, 9 / 10), (1, 1 / 5)]"
      unfolding ranked_others_def n others by (simp add: demo_matrix_def)
    have "recommend demo_not_found ascii_lower ''Naruto'' demo_matrix demo_catalog 5 =
        Inr (setitem (select_rows demo_catalog [2, 1]) ''similarity'' [Num (9 / 10), Num (1 / 5)])"
      unfolding recommend_def res by (simp add: rk Let_def)
    then show ?thesis
      by (simp add: select_rows_def setitem_def demo_catalog_def)
  qed
  have choice: "st_selectbox [Str ''Bleach'', Str ''Naruto'', Str ''One Piece'']
      (anime_choice demo_recommend_request) = Some (Str ''Naruto'')"
    by (simp add: st_selectbox_def demo_recommend_request_def demo_request_def)
  have shown2: "show_recommendations demo_recommend_request"
    by (simp add: demo_recommend_request_def demo_request_def)
  have one: "(1::int) \<le> 5"
    by simp
  note caller = recommend_returns_top_n [OF wf sq res one titles opts shown,
      where not_found = demo_not_found and ext = spec_externals, THEN conjunct2, unfolded choice]
  from caller obtain n where n: "1 \<le> n" "n \<le> 10"
    "rekomendasi_view spec_externals demo_recommend_request demo_catalog demo_matrix =
       then_run ([Sidebar_title, Selectbox [Str ''Bleach'', Str ''Naruto'', Str ''One Piece''],
                  Slider n, Recommend_button], Done)
         (show_recommendations_block spec_externals demo_recommend_request demo_catalog
            demo_matrix (Some (Str ''Naruto'')) n)"
    by (elim exE conjE) (rule that, assumption+)
  have view: "\<exists>n. 1 \<le> n \<and> n \<le> 10
         \<and> rekomendasi_view spec_externals demo_recommend_request demo_catalog demo_matrix =
             then_run ([Sidebar_title, Selectbox [Str ''Bleach'', Str ''Naruto'', Str ''One Piece''],
                        Slider n, Recommend_button], Done)
               (show_recommendations_block spec_externals demo_recommend_request demo_catalog
                  demo_matrix (Some (Str ''Naruto'')) n)"
    by (rule exI [of _ n]) (intro conjI n)
  show ?thesis
    by (intro conjI) (rule wf sq res titles opts shown2 recs view)+
qed

section \<open>Properties of the similarity matrix of the specification\<close>

lemma dot_commute: "dot a b = dot b a"
  unfolding dot_def
proof (induction a arbitrary: b)
  case Nil
  show ?case by simp
next
  case (Cons x a)
  show ?case by (cases b) (simp_all add: Cons.IH mult.commute)
qed

lemma cosine_commute: "cosine a b = cosine b a"
  by (auto simp: cosine_def dot_commute mult.commute)

lemma dot_self: "dot a a = sum_list (map (\<lambda>x. x * x) a)"
  by (simp add: dot_def zip_same_conv_map comp_def)

lemma vec_norm_zero: "vec_norm a = 0 \<longleftrightarrow> (\<forall>x\<in>set a. x = 0)"
proof -
  have "sum_list (map (\<lambda>x. x * x) a) = 0 \<longleftrightarrow> (\<forall>y\<in>set (map (\<lambda>x. x * x) a). y = 0)"
    by (rule sum_list_nonneg_eq_0_iff) auto
  then show ?thesis
    by (simp add: vec_norm_def dot_self)
qed

text \<open>
  C6. Every entry of the similarity matrix of the specification is the quotient of the
  dot product by the product of the norms when both norms are non-zero, and then the
  divisor is non-zero; it is 0 when either norm is 0, which is the case exactly for an
  all-zero vector. So no entry is computed by a division by zero.
\<close>

theorem similarity_entry_is_guarded_cosine:
  assumes "i < length vectors" and "j < length vectors"
  shows "(vec_norm (vectors ! i) \<noteq> 0 \<and> vec_norm (vectors ! j) \<noteq> 0 \<longrightarrow>
            vec_norm (vectors ! i) * vec_norm (vectors ! j) \<noteq> 0
            \<and> build_similarity_matrix vectors ! i ! j =
                dot (vectors ! i) (vectors ! j) / (vec_norm (vectors ! i) * vec_norm (vectors ! j)))
    \<and> (vec_norm (vectors ! i) = 0 \<or> vec_norm (vectors ! j) = 0 \<longrightarrow>
            build_similarity_matrix vectors ! i ! j = 0)
    \<and> (vec_norm (vectors ! i) = 0 \<longleftrightarrow> (\<forall>x\<in>set (vectors ! i). x = 0))
    \<and> (vec_norm (vectors ! j) = 0 \<longleftrightarrow> (\<forall>x\<in>set (vectors ! j). x = 0))"
  using assms by (simp add: build_similarity_matrix_def cosine_def vec_norm_zero)

theorem similarity_entry_is_guarded_cosine_witness:
  "(0::nat) < length [[1, 0], [1, 1], [0, 0::real]] \<and> (2::nat) < length [[1, 0], [1, 1], [0, 0::real]]
   \<and> vec_norm [1, 0] = 1 \<and> vec_norm [0, 0] = 0
   \<and> build_similarity_matrix [[1, 0], [1, 1], [0, 0]] ! 0 ! 2 = 0
   \<and> build_similarity_matrix [[1, 0], [1, 1], [0, 0]] ! 0 ! 0 = 1"
  using similarity_entry_is_guarded_cosine [of 0 "[[1, 0], [1, 1], [0, 0]]" 2]
    similarity_entry_is_guarded_cosine [of 0 "[[1, 0], [1, 1], [0, 0]]" 0]
  by (simp add: vec_norm_def dot_def)

text \<open>
  C7. The similarity matrix of the specification is symmetric: entry \<open>(i, j)\<close> equals entry
  \<open>(j, i)\<close> for all indices within the catalog.
\<close>

theorem similarity_matrix_symmetric:
  assumes "i < length vectors" and "j < length vectors"
  shows "build_similarity_matrix vectors ! i ! j = build_similarity_matrix vectors ! j ! i"
  using assms by (simp add: build_similarity_matrix_def cosine_commute)

theorem similarity_matrix_symmetric_witness:
  "(0::nat) < length [[1, 0], [1, 1], [0, 0::real]] \<and> (1::nat) < length [[1, 0], [1, 1], [0, 0::real]]
   \<and> build_similarity_matrix [[1, 0], [1, 1], [0, 0]] ! 0 ! 1 = 1 / sqrt 2
   \<and> build_similarity_matrix [[1, 0], [1, 1], [0, 0]] ! 1 ! 0 = 1 / sqrt 2"
  using similarity_matrix_symmetric [of 0 "[[1, 0], [1, 1], [0, 0]]" 1]
  by (simp add: build_similarity_matrix_def cosine_def vec_norm_def dot_def)

end
